theory Spec2Isabelle
  imports Main "HOL-Library.Word" "HOL-Library.Sublist" "HOL-Library.AList"
begin

section \<open>Phased uninstallation of Kyma: the deployment package\<close>

text \<open>
  The theory embeds the three functions of the \<^verbatim>\<open>deployment\<close> package that remove Kyma
  from a cluster: \<^verbatim>\<open>uninstallComponents\<close> (one engine run raced against two timers),
  \<^verbatim>\<open>startKymaUninstallation\<close> (two such runs, then the namespace teardown) and
  \<^verbatim>\<open>deleteKymaNamespaces\<close> (pre-check, one goroutine per namespace, error fan-in).

  Everything these functions do to their collaborators is recorded, in program order, in a
  list of effects. What the collaborators answer is an input of the model: the cases the
  successive \<^verbatim>\<open>select\<close> statements take, the results of the cluster calls, the readings
  of the clock and the choices of the Go scheduler.
\<close>

subsection \<open>Errors\<close>

text \<open>
  A Go \<^verbatim>\<open>error\<close> value: one made by \<^verbatim>\<open>errors.New\<close> or \<^verbatim>\<open>fmt.Errorf\<close>, a status error of
  the Kubernetes API (the flag says that its reason is NotFound), or one made by
  \<^verbatim>\<open>errors.Wrap(cause, message)\<close> of pkg/errors. A nil error is \<open>None\<close> of
  \<open>error option\<close>.
\<close>

datatype error =
    ErrorNew string
  | APIStatus bool string
  | Wrap error string

text \<open>\<^verbatim>\<open>err.Error()\<close>; a wrapped error prints its message, a colon and its cause.\<close>

fun Error :: "error \<Rightarrow> string" where
  "Error (ErrorNew m) = m"
| "Error (APIStatus nf m) = m"
| "Error (Wrap cause m) = m @ '': '' @ Error cause"

text \<open>\<^verbatim>\<open>apierr.IsNotFound(err)\<close>.\<close>

fun IsNotFound :: "error \<Rightarrow> bool" where
  "IsNotFound (APIStatus nf m) = nf"
| "IsNotFound (ErrorNew m) = False"
| "IsNotFound (Wrap cause m) = False"

text \<open>
  How a call of a Go function ends: it returns a value, it never returns (a goroutine that
  waits for ever on a channel operation), or it panics.
\<close>

datatype 'a go = Returned 'a | Blocked | Panicked

subsection \<open>Formatting\<close>

text \<open>The verb \<^verbatim>\<open>%d\<close> of \<^verbatim>\<open>fmt\<close>: a decimal numeral, with a minus sign below zero.\<close>

fun digits :: "nat \<Rightarrow> string" where
  "digits n =
     (if n < 10 then [''0123456789'' ! n] else digits (n div 10) @ [''0123456789'' ! (n mod 10)])"

declare digits.simps [simp del]

definition fmt_d :: "int \<Rightarrow> string" where
  "fmt_d i = (if i < 0 then CHR ''-'' # digits (nat (- i)) else digits (nat i))"

subsection \<open>Data of the supervisor\<close>

type_synonym Duration = int  \<comment> \<open>\<^verbatim>\<open>time.Duration\<close>, in nanoseconds\<close>
type_synonym Time = int  \<comment> \<open>a reading of \<^verbatim>\<open>time.Now()\<close>, in nanoseconds\<close>

datatype InstallationPhase = UninstallComponents | UninstallPreRequisites

datatype ProcessEvent =
    ProcessStart
  | ProcessExecutionFailure
  | ProcessTimeoutFailure
  | ProcessForceQuitFailure
  | ProcessFinished

record KymaComponent =
  Name :: string
  Status :: string

text \<open>
  Modelled from the spec: the constant \<^verbatim>\<open>components.StatusError\<close>, which
  \<^verbatim>\<open>uninstallComponents\<close> compares every received status with, is declared in a package
  that is not among the sources; the spec names the status \<^verbatim>\<open>Error\<close>.
\<close>

definition StatusError :: string where
  "StatusError = ''Error''"

text \<open>
  The case one \<^verbatim>\<open>select\<close> of the wait loop takes: a component received from the status
  channel, the status channel found closed, the value of the cancel timer, the value of the
  quit timer. The loop learns that a timer has fired only when a \<^verbatim>\<open>select\<close> takes its case.
\<close>

datatype select_case =
    StatusRecv KymaComponent
  | StatusClosed
  | CancelTimeoutChan
  | QuitTimeoutChan

text \<open>
  The engine as \<^verbatim>\<open>uninstallComponents\<close> observes it: the error of \<^verbatim>\<open>eng.Uninstall(ctx)\<close>
  and the cases that the selects of the loop take, one after the other, when the call
  succeeded. When the list is used up nothing becomes ready any more and the loop waits for
  ever.
\<close>

record Engine =
  UninstallErr :: "error option"
  selects :: "select_case list"

record Config =
  CancelTimeout :: Duration
  QuitTimeout :: Duration

subsection \<open>Data of the namespace teardown\<close>

datatype PodPhase = PodPending | PodRunning | PodSucceeded | PodFailed | PodUnknown

record Pod =
  PodName :: string
  Phase :: PodPhase

text \<open>A cluster object with finalizers: a broker, a secret, a rule.\<close>

record Object =
  ObjName :: string
  Finalizers :: "string list"

text \<open>
  What the cluster answers to the calls made for one namespace. A call that returns a pointer
  and an error is a pair of options: \<open>None\<close> is nil on either side. The pre-check lists
  the pods once per attempt, and a loop over listed items updates one item per round, so
  these answers are indexed by the attempt and by the round.
\<close>

record Responses =
  podsList :: "nat \<Rightarrow> Pod list option \<times> error option"
  csbList :: "Object list option \<times> error option"
  csbUpdate :: "nat \<Rightarrow> error option"
  sbList :: "Object list option \<times> error option"
  sbUpdate :: "nat \<Rightarrow> error option"
  secretGet :: "Object option \<times> error option"
  secretUpdate :: "error option"
  rulesList :: "Object list option \<times> error option"
  rulesUpdate :: "nat \<Rightarrow> error option"
  namespaceDelete :: "error option"

text \<open>
  The receiver \<^verbatim>\<open>i *Deletion\<close> as far as the three functions read it: the two configured
  timeouts, the answer of \<^verbatim>\<open>i.mp.Namespaces()\<close>, the answers of the cluster clients for the
  n-th namespace handed to \<^verbatim>\<open>deleteKymaNamespaces\<close>, and the number of attempts that
  \<^verbatim>\<open>i.retryOptions\<close> grant.
\<close>

record Deletion =
  cfg :: Config
  mpNamespaces :: "error + string list"
  cluster :: "nat \<Rightarrow> Responses"
  retryAttempts :: nat

datatype api_call =
    PodsList string
  | ClusterServiceBrokersList
  | ClusterServiceBrokersUpdate Object
  | ServiceBrokersList string
  | ServiceBrokersUpdate string Object
  | SecretsGet string string
  | SecretsUpdate string Object
  | RulesList string
  | RulesUpdate string Object
  | NamespacesDelete string

text \<open>
  What a goroutine does to the outside, in program order: calls of the collaborators,
  notifications of the progress sink, log lines, operations on the wait group and on the
  error channel.
\<close>

datatype effect =
    TimeAfter Duration
  | EngUninstall
  | ProcessUpdate InstallationPhase ProcessEvent "error option"
  | ProcessUpdateComponent InstallationPhase KymaComponent
  | CancelFunc
  | LogTimeout Duration
  | LogStatuses "(string \<times> string) list"
  | Log string
  | MpNamespaces
  | Call api_call
  | WgAdd nat
  | WgDone
  | Send error
  | Go nat string
  | NilDereference

subsection \<open>uninstallComponents\<close>

text \<open>
  The loop labelled \<^verbatim>\<open>UninstallLoop\<close>, with its three variables; \<^verbatim>\<open>errCount\<close> is a Go
  \<^verbatim>\<open>int\<close>, 64 bits wide here, and \<^verbatim>\<open>statusMap\<close> is kept as an association list. The last equation of \<open>StatusClosed\<close> is the
  \<^verbatim>\<open>break\<close> together with the two statements after the loop.
\<close>

fun UninstallLoop ::
  "InstallationPhase \<Rightarrow> Duration \<Rightarrow> select_case list \<Rightarrow> (string \<times> string) list \<Rightarrow> 64 word \<Rightarrow> bool
    \<Rightarrow> error option go \<times> effect list" where
  "UninstallLoop phase cancelTimeout [] statusMap errCount timeoutOccured = (Blocked, [])"
| "UninstallLoop phase cancelTimeout (StatusRecv cmp # sel) statusMap errCount timeoutOccured =
     (let errCount' = (if Status cmp = StatusError then errCount + 1 else errCount);
          (r, effs) = UninstallLoop phase cancelTimeout sel
                        (AList.update (Name cmp) (Status cmp) statusMap) errCount' timeoutOccured
      in (r, ProcessUpdateComponent phase cmp # effs))"
| "UninstallLoop phase cancelTimeout (StatusClosed # sel) statusMap errCount timeoutOccured =
     (if 0 < sint errCount then
        (let err = ErrorNew (''Kyma uninstallation failed due to errors in '' @ fmt_d (sint errCount)
                              @ '' component(s)'')
         in (Returned (Some err),
             [ProcessUpdate phase ProcessExecutionFailure (Some err), LogStatuses statusMap]))
      else if timeoutOccured then
        (let err = ErrorNew ''Kyma uninstallation failed due to the timeout''
         in (Returned (Some err),
             [ProcessUpdate phase ProcessTimeoutFailure (Some err), LogStatuses statusMap]))
      else (Returned None, [ProcessUpdate phase ProcessFinished None]))"
| "UninstallLoop phase cancelTimeout (CancelTimeoutChan # sel) statusMap errCount timeoutOccured =
     (let (r, effs) = UninstallLoop phase cancelTimeout sel statusMap errCount True
      in (r, LogTimeout cancelTimeout # CancelFunc # effs))"
| "UninstallLoop phase cancelTimeout (QuitTimeoutChan # sel) statusMap errCount timeoutOccured =
     (let err = ErrorNew ''Force quit: Kyma uninstallation failed due to the timeout''
      in (Returned (Some err),
          [ProcessUpdate phase ProcessForceQuitFailure (Some err),
           Log ''Uninstallation doesn't stop after it's canceled. Enforcing quit'']))"

definition uninstallComponents ::
  "InstallationPhase \<Rightarrow> Engine \<Rightarrow> Duration \<Rightarrow> Duration \<Rightarrow> error option go \<times> effect list" where
  "uninstallComponents phase eng cancelTimeout quitTimeout =
     (case UninstallErr eng of
        Some err \<Rightarrow> (Returned (Some err), [TimeAfter cancelTimeout, TimeAfter quitTimeout, EngUninstall])
      | None \<Rightarrow>
          (let (r, effs) = UninstallLoop phase cancelTimeout (selects eng) [] 0 False
           in (r, [TimeAfter cancelTimeout, TimeAfter quitTimeout, EngUninstall,
                   ProcessUpdate phase ProcessStart None] @ effs)))"

subsection \<open>deleteKymaNamespaces: the pre-check\<close>

text \<open>
  The function handed to \<^verbatim>\<open>retry.Do\<close>, for one attempt, given the answer of the List call.
  It runs on the goroutine of \<^verbatim>\<open>deleteKymaNamespaces\<close> itself. The channel \<^verbatim>\<open>errorCh\<close> is
  unbuffered and its only receiver is the \<^verbatim>\<open>select\<close> at the end of that same goroutine, so
  the send \<^verbatim>\<open>errorCh <- err\<close> made here never completes. A nil list with a nil error
  makes \<^verbatim>\<open>pods.Items\<close> panic.
\<close>

definition checkPods ::
  "string \<Rightarrow> Pod list option \<times> error option \<Rightarrow> error option go \<times> effect list" where
  "checkPods namespace answer =
     (case answer of (pods, err) \<Rightarrow>
        (case err of
           Some e \<Rightarrow> (Blocked, [Call (PodsList namespace), Send e])
         | None \<Rightarrow>
             (case pods of
                None \<Rightarrow> (Panicked, [Call (PodsList namespace), NilDereference])
              | Some items \<Rightarrow>
                  (case find (\<lambda>pod. Phase pod = PodRunning) items of
                     Some pod \<Rightarrow>
                       (Returned (Some (ErrorNew (''Namespace '' @ namespace
                          @ '' could not be deleted because of the running Pod: '' @ PodName pod
                          @ ''. Trying again..''))),
                        [Call (PodsList namespace)])
                   | None \<Rightarrow> (Returned None, [Call (PodsList namespace)])))))"

text \<open>
  \<^verbatim>\<open>retry.Do\<close> of avast/retry-go, a library outside the repository: it calls the function
  until it returns nil, at most as often as the options grant, and returns nil or, when
  every attempt failed, the list of their errors (\<^verbatim>\<open>retry.Error\<close>, never nil). The first
  argument is the function by attempt number, \<open>n\<close> is the number of the next attempt, the
  last argument counts the attempts left.
\<close>

fun retryDo ::
  "(nat \<Rightarrow> error option go \<times> effect list) \<Rightarrow> nat \<Rightarrow> error list \<Rightarrow> nat
    \<Rightarrow> error list option go \<times> effect list" where
  "retryDo f n errorLog 0 = (Returned (Some errorLog), [])"
| "retryDo f n errorLog (Suc k) =
     (case f n of
        (Returned None, effs) \<Rightarrow> (Returned None, effs)
      | (Returned (Some err), effs) \<Rightarrow>
          (let (r, effs') = retryDo f (Suc n) (errorLog @ [err]) k in (r, effs @ effs'))
      | (Blocked, effs) \<Rightarrow> (Blocked, effs)
      | (Panicked, effs) \<Rightarrow> (Panicked, effs))"

subsection \<open>deleteKymaNamespaces: the goroutine of one namespace\<close>

text \<open>Sequencing inside a goroutine: after a nil dereference nothing follows.\<close>

definition andThen :: "effect list \<Rightarrow> effect list \<Rightarrow> effect list" where
  "andThen p q = (if NilDereference \<in> set p then p else p @ q)"

text \<open>
  One of the three loops \<^verbatim>\<open>for _, x := range list.Items\<close>: the finalizers of the item are
  emptied, the item is updated, an error of the update is sent, a line is logged. \<open>k\<close> is
  the number of the round.
\<close>

fun clearItems ::
  "(Object \<Rightarrow> api_call) \<Rightarrow> (nat \<Rightarrow> error option) \<Rightarrow> string \<Rightarrow> nat \<Rightarrow> Object list
    \<Rightarrow> effect list" where
  "clearItems update answer kind k [] = []"
| "clearItems update answer kind k (x # xs) =
     Call (update (x\<lparr>Finalizers := []\<rparr>))
       # (case answer k of Some err \<Rightarrow> [Send err] | None \<Rightarrow> [])
       @ Log (''Deleted finalizer from '' @ kind @ '': '' @ ObjName x)
       # clearItems update answer kind (Suc k) xs"

text \<open>
  A List call followed by its loop: any error of the call is sent, and the items are read
  whatever the error was; reading the items of a nil list panics.
\<close>

definition clearList ::
  "api_call \<Rightarrow> Object list option \<times> error option \<Rightarrow> (Object \<Rightarrow> api_call)
    \<Rightarrow> (nat \<Rightarrow> error option) \<Rightarrow> string \<Rightarrow> effect list" where
  "clearList list answer update updateAnswer kind =
     Call list
       # (case snd answer of Some err \<Rightarrow> [Send err] | None \<Rightarrow> [])
       @ (case fst answer of
            None \<Rightarrow> [NilDereference]
          | Some items \<Rightarrow> clearItems update updateAnswer kind 0 items)"

text \<open>
  The secret: an error of the Get call is sent unless it is NotFound; a nil secret is left
  alone.
\<close>

definition clearSecret :: "Responses \<Rightarrow> string \<Rightarrow> effect list" where
  "clearSecret r ns =
     Call (SecretsGet ns ''serverless-registry-config-default'')
       # (case snd (secretGet r) of
            Some err \<Rightarrow> (if \<not> IsNotFound err then [Send err] else [])
          | None \<Rightarrow> [])
       @ (case fst (secretGet r) of
            None \<Rightarrow> []
          | Some secret \<Rightarrow>
              Call (SecretsUpdate ns (secret\<lparr>Finalizers := []\<rparr>))
                # (case secretUpdate r of Some err \<Rightarrow> [Send err] | None \<Rightarrow> [])
                @ [Log (''Deleted finalizer from Secret: '' @ ObjName secret)])"

text \<open>The namespace itself: an error of the Delete call is sent unless it is NotFound.\<close>

definition removeNamespace :: "Responses \<Rightarrow> string \<Rightarrow> effect list" where
  "removeNamespace r ns =
     Call (NamespacesDelete ns)
       # (case namespaceDelete r of
            Some err \<Rightarrow> (if \<not> IsNotFound err then [Send err] else [])
          | None \<Rightarrow> [])
       @ [Log (''Namespace '' @ [CHR 0x27] @ ns @ [CHR 0x27] @ '' is removed'')]"

text \<open>
  The body of \<^verbatim>\<open>go func(ns string)\<close>: what the goroutine does, in order. The deferred
  \<^verbatim>\<open>wg.Done()\<close> comes last.
\<close>

definition worker :: "Responses \<Rightarrow> string \<Rightarrow> effect list" where
  "worker r ns =
     andThen
       (if ns = ''kyma-system'' then
          andThen (clearList ClusterServiceBrokersList (csbList r) ClusterServiceBrokersUpdate
                     (csbUpdate r) ''CSB'')
         (andThen (clearList (ServiceBrokersList ns) (sbList r) (ServiceBrokersUpdate ns)
                     (sbUpdate r) ''SB'')
         (andThen (clearSecret r ns)
                  (clearList (RulesList ns) (rulesList r) (RulesUpdate ns) (rulesUpdate r)
                     ''Rule'')))
        else [])
       (removeNamespace r ns)
     @ [WgDone]"

subsection \<open>deleteKymaNamespaces: the loop over the namespaces\<close>

text \<open>
  The state of one call: the counter of the wait group, what each started goroutine has
  still to do (in the order they were started), whether the two channels are closed, the
  error aggregated so far, and all effects so far in the order they happened.
\<close>

record teardown =
  wg :: int
  workers :: "effect list list"
  errorChClosed :: bool
  finishedChClosed :: bool
  errWrapped :: "error option"
  trace :: "effect list"

text \<open>
  The \<^verbatim>\<open>for _, namespace := range namespaces\<close> loop; \<open>n\<close> is the position of the namespace
  in the list. A namespace whose pre-check returns an error is logged and counted as done;
  otherwise its goroutine is started. The goroutines started here take their steps in
  \<open>collect\<close> below: before the loop ends they cannot get past a send, and their other
  steps do not depend on the loop. When the loop itself blocks or panics they are not
  followed further.
\<close>

fun spawnWorkers :: "Deletion \<Rightarrow> nat \<Rightarrow> string list \<Rightarrow> teardown \<Rightarrow> unit go \<times> teardown" where
  "spawnWorkers i n [] s = (Returned (), s)"
| "spawnWorkers i n (namespace # rest) s =
     (case retryDo (\<lambda>k. checkPods namespace (podsList (cluster i n) k)) 0 [] (retryAttempts i) of
        (Returned (Some err), effs) \<Rightarrow>
          spawnWorkers i (Suc n) rest
            (s\<lparr>wg := wg s - 1,
               trace := trace s @ effs
                 @ [Log (''Namespace '' @ namespace
                      @ '' could not be deleted because of running Pod(s)''),
                    WgDone]\<rparr>)
      | (Returned None, effs) \<Rightarrow>
          spawnWorkers i (Suc n) rest
            (s\<lparr>workers := workers s @ [worker (cluster i n) namespace],
               trace := trace s @ effs @ [Go n namespace]\<rparr>)
      | (Blocked, effs) \<Rightarrow> (Blocked, s\<lparr>trace := trace s @ effs\<rparr>)
      | (Panicked, effs) \<Rightarrow> (Panicked, s\<lparr>trace := trace s @ effs\<rparr>))"

subsection \<open>deleteKymaNamespaces: collecting the results\<close>

text \<open>
  The steps the Go scheduler can grant once the loop is over: the n-th goroutine takes its
  next step; the \<^verbatim>\<open>select\<close> receives from \<^verbatim>\<open>errorCh\<close> the error that the n-th goroutine is
  sending; the goroutine that waits for the wait group takes its next step; the
  \<^verbatim>\<open>select\<close> receives nil from the closed \<^verbatim>\<open>errorCh\<close>; the \<^verbatim>\<open>select\<close> receives from the
  closed \<^verbatim>\<open>finishedCh\<close>.
\<close>

datatype choice = Run nat | Receive nat | Closer | ReceiveClosed | Finished

text \<open>The body of \<^verbatim>\<open>case err := <-errorCh\<close> for a non-nil error.\<close>

fun aggregate :: "error option \<Rightarrow> error \<Rightarrow> error option" where
  "aggregate None err = Some err"
| "aggregate (Some wrapped) err = Some (Wrap err (Error wrapped))"

text \<open>
  One step under the state; \<open>None\<close> is a panic. A step that is not possible in the state
  changes nothing. A send waits for its \<open>Receive\<close>; on the closed channel it panics, as
  does \<^verbatim>\<open>wg.Done()\<close> on a counter of zero and a nil dereference. \<^verbatim>\<open>wg.Wait()\<close> lets the
  closing goroutine go on when the counter is zero; it closes \<^verbatim>\<open>errorCh\<close>, then
  \<^verbatim>\<open>finishedCh\<close>. Receiving from the closed \<^verbatim>\<open>errorCh\<close> yields nil, which the loop ignores.
\<close>

fun step :: "choice \<Rightarrow> teardown \<Rightarrow> teardown option" where
  "step Finished s = Some s"
| "step ReceiveClosed s = Some s"
| "step Closer s =
     (if \<not> errorChClosed s then (if wg s = 0 then Some (s\<lparr>errorChClosed := True\<rparr>) else Some s)
      else Some (s\<lparr>finishedChClosed := True\<rparr>))"
| "step (Receive n) s =
     (if n < length (workers s) then
        (case workers s ! n of
           Send err # p \<Rightarrow>
             (if errorChClosed s then None
              else Some (s\<lparr>workers := (workers s)[n := p],
                           errWrapped := aggregate (errWrapped s) err,
                           trace := trace s @ [Send err]\<rparr>))
         | _ \<Rightarrow> Some s)
      else Some s)"
| "step (Run n) s =
     (if n < length (workers s) then
        (case workers s ! n of
           [] \<Rightarrow> Some s
         | Send err # p \<Rightarrow> (if errorChClosed s then None else Some s)
         | NilDereference # p \<Rightarrow> None
         | WgDone # p \<Rightarrow>
             (if wg s \<le> 0 then None
              else Some (s\<lparr>workers := (workers s)[n := p], wg := wg s - 1,
                           trace := trace s @ [WgDone]\<rparr>))
         | e # p \<Rightarrow> Some (s\<lparr>workers := (workers s)[n := p], trace := trace s @ [e]\<rparr>))
      else Some s)"

text \<open>
  The loop \<^verbatim>\<open>for { select { ... } }\<close> with the goroutines beside it, under a schedule: the
  call returns \<^verbatim>\<open>errWrapped\<close> when the \<^verbatim>\<open>select\<close> receives from the closed
  \<^verbatim>\<open>finishedCh\<close>. When the schedule is used up nothing runs any more and the call does not
  return.
\<close>

fun collect :: "choice list \<Rightarrow> teardown \<Rightarrow> error option go \<times> teardown" where
  "collect [] s = (Blocked, s)"
| "collect (c # sched) s =
     (if c = Finished \<and> finishedChClosed s then (Returned (errWrapped s), s)
      else (case step c s of
              None \<Rightarrow> (Panicked, s)
            | Some s' \<Rightarrow> collect sched s'))"

definition deleteKymaNamespaces ::
  "Deletion \<Rightarrow> string list \<Rightarrow> choice list \<Rightarrow> error option go \<times> teardown" where
  "deleteKymaNamespaces i namespaces sched =
     (case spawnWorkers i 0 namespaces
             \<lparr>wg = int (length namespaces), workers = [], errorChClosed = False,
              finishedChClosed = False, errWrapped = None,
              trace = [WgAdd (length namespaces)]\<rparr> of
        (Returned u, s) \<Rightarrow> collect sched s
      | (Blocked, s) \<Rightarrow> (Blocked, s)
      | (Panicked, s) \<Rightarrow> (Panicked, s))"

subsection \<open>startKymaUninstallation\<close>

text \<open>
  Modelled from the spec: \<^verbatim>\<open>calculateDuration\<close> is called by \<^verbatim>\<open>startKymaUninstallation\<close>
  with the two readings of the clock around the first phase and a configured timeout, but
  its declaration is not among the sources. The spec gives the adjusted budget as
  \<^verbatim>\<open>max(0, original_budget - elapsed)\<close>, the elapsed time being the wall-clock duration of
  the first phase.
\<close>

definition calculateDuration :: "Time \<Rightarrow> Time \<Rightarrow> Duration \<Rightarrow> Duration" where
  "calculateDuration startTime endTime duration = max 0 (duration - (endTime - startTime))"

text \<open>
  \<^verbatim>\<open>defer cancel()\<close>: the deferred call runs when the function returns or panics, not while
  it waits for ever.
\<close>

fun deferred :: "'a go \<Rightarrow> effect list" where
  "deferred Blocked = []"
| "deferred r = [CancelFunc]"

text \<open>
  The orchestrator. Besides the receiver and the two engines its inputs are the two readings
  of \<^verbatim>\<open>time.Now()\<close>, before and after the first phase, and the schedule of the teardown.
\<close>

definition startKymaUninstallation ::
  "Deletion \<Rightarrow> Engine \<Rightarrow> Engine \<Rightarrow> Time \<Rightarrow> Time \<Rightarrow> choice list \<Rightarrow> error option go \<times> effect list" where
  "startKymaUninstallation i prerequisitesEng componentsEng startTime endTime sched =
     (case mpNamespaces i of
        Inl err \<Rightarrow> (Returned (Some err), [Log ''Kyma uninstallation started'', MpNamespaces, CancelFunc])
      | Inr namespaces \<Rightarrow>
          (case uninstallComponents UninstallComponents componentsEng
                  (CancelTimeout (cfg i)) (QuitTimeout (cfg i)) of
             (Returned None, effs1) \<Rightarrow>
               (case uninstallComponents UninstallPreRequisites prerequisitesEng
                       (calculateDuration startTime endTime (CancelTimeout (cfg i)))
                       (calculateDuration startTime endTime (QuitTimeout (cfg i))) of
                  (Returned None, effs2) \<Rightarrow>
                    (let (r, s) = deleteKymaNamespaces i (namespaces @ [''kyma-installer'']) sched
                     in (r, [Log ''Kyma uninstallation started'', MpNamespaces] @ effs1
                            @ [Log ''Kyma prerequisites uninstallation''] @ effs2
                            @ trace s @ deferred r))
                | (r, effs2) \<Rightarrow>
                    (r, [Log ''Kyma uninstallation started'', MpNamespaces] @ effs1
                        @ [Log ''Kyma prerequisites uninstallation''] @ effs2 @ deferred r))
           | (r, effs1) \<Rightarrow>
               (r, [Log ''Kyma uninstallation started'', MpNamespaces] @ effs1 @ deferred r)))"

section \<open>The orchestrator: reading a run\<close>

text \<open>The effects that show which collaborators a run reached.\<close>

fun isTeardown :: "effect \<Rightarrow> bool" where
  "isTeardown (WgAdd n) = True"
| "isTeardown (Call c) = True"
| "isTeardown (Go n ns) = True"
| "isTeardown (Send e) = True"
| "isTeardown WgDone = True"
| "isTeardown e = False"

fun ofPhase :: "InstallationPhase \<Rightarrow> effect \<Rightarrow> bool" where
  "ofPhase phase (ProcessUpdate p ev err) = (p = phase)"
| "ofPhase phase (ProcessUpdateComponent p cmp) = (p = phase)"
| "ofPhase phase e = False"

definition engineCalls :: "effect list \<Rightarrow> nat" where
  "engineCalls effs = length (filter (\<lambda>e. e = EngUninstall) effs)"

section \<open>The namespace teardown: reading a run\<close>

subsection \<open>The effects of a goroutine\<close>

text \<open>The cluster calls among the effects, and the errors sent to \<^verbatim>\<open>errorCh\<close>, in order.\<close>

fun calls :: "effect list \<Rightarrow> api_call list" where
  "calls [] = []"
| "calls (Call c # es) = c # calls es"
| "calls (e # es) = calls es"

fun sends :: "effect list \<Rightarrow> error list" where
  "sends [] = []"
| "sends (Send err # es) = err # sends es"
| "sends (e # es) = sends es"

text \<open>The items of a listing; a nil list has none.\<close>

definition listed :: "'a list option \<times> error option \<Rightarrow> 'a list" where
  "listed answer = (case fst answer of None \<Rightarrow> [] | Some items \<Rightarrow> items)"

text \<open>
  The clearing sequence in the order the claim gives it: the cluster service brokers, the
  service brokers, the secret, the rules; each kind is fetched, then every fetched object is
  updated with an empty list of finalizers.
\<close>

definition clearingCalls :: "Responses \<Rightarrow> string \<Rightarrow> api_call list" where
  "clearingCalls r ns =
     ClusterServiceBrokersList
       # map (\<lambda>x. ClusterServiceBrokersUpdate (x\<lparr>Finalizers := []\<rparr>)) (listed (csbList r))
     @ ServiceBrokersList ns
       # map (\<lambda>x. ServiceBrokersUpdate ns (x\<lparr>Finalizers := []\<rparr>)) (listed (sbList r))
     @ SecretsGet ns ''serverless-registry-config-default''
       # (case fst (secretGet r) of
            None \<Rightarrow> []
          | Some secret \<Rightarrow> [SecretsUpdate ns (secret\<lparr>Finalizers := []\<rparr>)])
     @ RulesList ns
       # map (\<lambda>x. RulesUpdate ns (x\<lparr>Finalizers := []\<rparr>)) (listed (rulesList r))"

text \<open>A cluster that answers every call without an error, lists nothing and has no secret.\<close>

definition quiet :: Responses where
  "quiet = \<lparr>podsList = (\<lambda>k. (Some [], None)), csbList = (Some [], None), csbUpdate = (\<lambda>k. None),
            sbList = (Some [], None), sbUpdate = (\<lambda>k. None), secretGet = (None, None),
            secretUpdate = None, rulesList = (Some [], None), rulesUpdate = (\<lambda>k. None),
            namespaceDelete = None\<rparr>"

definition notFound :: error where
  "notFound = APIStatus True ''the server could not find the requested resource''"


section \<open>The supervisor: properties\<close>

subsection \<open>Reading a run of the wait loop\<close>

text \<open>A received component whose status is \<^verbatim>\<open>components.StatusError\<close>.\<close>

fun isErrorStatus :: "select_case \<Rightarrow> bool" where
  "isErrorStatus (StatusRecv cmp) = (Status cmp = StatusError)"
| "isErrorStatus c = False"

definition errorStatuses :: "select_case list \<Rightarrow> nat" where
  "errorStatuses sel = length (filter isErrorStatus sel)"

text \<open>What the loop does while it keeps waiting: its effects, and the status map it builds.\<close>

fun waitEffects :: "InstallationPhase \<Rightarrow> Duration \<Rightarrow> select_case list \<Rightarrow> effect list" where
  "waitEffects phase c [] = []"
| "waitEffects phase c (StatusRecv cmp # sel) =
     ProcessUpdateComponent phase cmp # waitEffects phase c sel"
| "waitEffects phase c (CancelTimeoutChan # sel) = LogTimeout c # CancelFunc # waitEffects phase c sel"
| "waitEffects phase c (x # sel) = waitEffects phase c sel"

fun statusesAfter :: "select_case list \<Rightarrow> (string \<times> string) list \<Rightarrow> (string \<times> string) list" where
  "statusesAfter [] m = m"
| "statusesAfter (StatusRecv cmp # sel) m =
     statusesAfter sel (AList.update (Name cmp) (Status cmp) m)"
| "statusesAfter (x # sel) m = statusesAfter sel m"

fun receivedComponents :: "select_case list \<Rightarrow> KymaComponent list" where
  "receivedComponents [] = []"
| "receivedComponents (StatusRecv cmp # sel) = cmp # receivedComponents sel"
| "receivedComponents (x # sel) = receivedComponents sel"

text \<open>The notifications of the progress sink among the effects.\<close>

fun isNotification :: "effect \<Rightarrow> bool" where
  "isNotification (ProcessUpdate phase ev err) = True"
| "isNotification (ProcessUpdateComponent phase cmp) = True"
| "isNotification e = False"

text \<open>The three errors the supervisor makes.\<close>

definition componentFailure :: "nat \<Rightarrow> error" where
  "componentFailure n =
     ErrorNew (''Kyma uninstallation failed due to errors in '' @ fmt_d (int n) @ '' component(s)'')"

definition timeoutFailure :: error where
  "timeoutFailure = ErrorNew ''Kyma uninstallation failed due to the timeout''"


text \<open>
  As long as neither the closed stream nor the quit timer is selected, the loop goes on:
  a run over \<open>pre @ sel\<close> is the run over \<open>sel\<close> from the variables that \<open>pre\<close> leaves.
\<close>

lemma UninstallLoop_append:
  "StatusClosed \<notin> set pre \<Longrightarrow> QuitTimeoutChan \<notin> set pre \<Longrightarrow>
   UninstallLoop phase c (pre @ sel) m ec t =
     (let (r, effs) = UninstallLoop phase c sel (statusesAfter pre m)
                        (ec + word_of_nat (errorStatuses pre)) (t \<or> CancelTimeoutChan \<in> set pre)
      in (r, waitEffects phase c pre @ effs))"
proof (induction pre arbitrary: m ec t)
  case Nil
  then show ?case by (simp add: errorStatuses_def)
next
  case (Cons x pre)
  then show ?case
    by (cases x) (auto simp: errorStatuses_def add.assoc split: prod.splits)
qed

text \<open>Below \<open>2 ^ 63\<close> the 64-bit counter holds the number of increments.\<close>

lemma sint_errCount:
  assumes "n < 2 ^ 63"
  shows "sint (word_of_nat n :: 64 word) = int n"
proof -
  have "int n < 2 ^ 63"
    using assms by (simp flip: of_nat_less_iff)
  then have "signed_take_bit 63 (int n) = int n"
    by (intro signed_take_bit_int_eq_self) auto
  then show ?thesis by (simp add: signed_of_nat)
qed

lemma UninstallLoop_blocked:
  "StatusClosed \<notin> set sel \<Longrightarrow> QuitTimeoutChan \<notin> set sel \<Longrightarrow>
   fst (UninstallLoop phase c sel m ec t) = Blocked"
proof (induction sel arbitrary: m ec t)
  case Nil
  then show ?case by simp
next
  case (Cons x sel)
  then show ?case by (cases x) (simp_all add: split_def Let_def)
qed

lemma notifications_waitEffects:
  "filter isNotification (waitEffects phase c pre) =
     map (ProcessUpdateComponent phase) (receivedComponents pre)"
  by (induction phase c pre rule: waitEffects.induct) auto

lemma UninstallLoop_returned:
  assumes "fst (UninstallLoop phase c sel m ec t) = Returned r"
  shows "\<exists>comps ev. filter isNotification (snd (UninstallLoop phase c sel m ec t)) =
            map (ProcessUpdateComponent phase) comps @ [ProcessUpdate phase ev r]
          \<and> ev \<in> {ProcessFinished, ProcessExecutionFailure, ProcessTimeoutFailure,
                   ProcessForceQuitFailure}
          \<and> (ev = ProcessFinished \<longleftrightarrow> r = None)"
proof (cases "\<exists>x \<in> set sel. x = StatusClosed \<or> x = QuitTimeoutChan")
  case False
  then have "fst (UninstallLoop phase c sel m ec t) = Blocked"
    by (intro UninstallLoop_blocked) auto
  with assms show ?thesis by simp
next
  case True
  then obtain pre x rest where sel: "sel = pre @ x # rest"
    and x: "x = StatusClosed \<or> x = QuitTimeoutChan"
    and pre: "\<forall>y \<in> set pre. \<not> (y = StatusClosed \<or> y = QuitTimeoutChan)"
    using split_list_first_prop [of sel "\<lambda>x. x = StatusClosed \<or> x = QuitTimeoutChan"] by blast
  from pre have np: "StatusClosed \<notin> set pre" "QuitTimeoutChan \<notin> set pre" by auto
  let ?comps = "receivedComponents pre"
  from x show ?thesis
  proof
    assume "x = StatusClosed"
    with assms sel np show ?thesis
      by (intro exI [of _ ?comps])
         (auto simp: UninstallLoop_append notifications_waitEffects Let_def split: if_splits)
  next
    assume "x = QuitTimeoutChan"
    with assms sel np show ?thesis
      by (intro exI [of _ ?comps])
         (auto simp: UninstallLoop_append notifications_waitEffects Let_def split: if_splits)
  qed
qed

subsection \<open>The outcome when the stream closes\<close>

text \<open>
  Claim C1, as the code has it. Take a run in which \<^verbatim>\<open>eng.Uninstall\<close> succeeds and the
  loop gets to select the closed status channel, after the cases \<open>pre\<close>. If \<open>pre\<close> holds
  at least one component with the Error status, the run returns the component failure whose
  message carries the number of those components, and its last notification is
  \<open>ProcessExecutionFailure\<close> with that error. Otherwise, if a \<^verbatim>\<open>select\<close> of the loop took
  the case of the cancel timer in \<open>pre\<close> (the only place that sets \<^verbatim>\<open>timeoutOccured\<close>), it
  returns the timeout failure and notifies \<open>ProcessTimeoutFailure\<close>. Otherwise it returns
  nil and notifies \<open>ProcessFinished\<close>, whatever the two budgets are: a cancel timer that has
  expired but whose case no \<^verbatim>\<open>select\<close> has taken yet does not count. The counter is a
  64-bit \<^verbatim>\<open>int\<close>, so the number of Error statuses is taken below \<open>2 ^ 63\<close>.
\<close>

theorem stream_closed_outcome:
  assumes "UninstallErr eng = None"
    and "selects eng = pre @ StatusClosed # rest"
    and "StatusClosed \<notin> set pre" and "QuitTimeoutChan \<notin> set pre"
    and "errorStatuses pre < 2 ^ 63"
  shows "fst (uninstallComponents phase eng cancelTimeout quitTimeout) =
           (if 0 < errorStatuses pre then Returned (Some (componentFailure (errorStatuses pre)))
            else if CancelTimeoutChan \<in> set pre then Returned (Some timeoutFailure)
            else Returned None)
       \<and> last (filter isNotification (snd (uninstallComponents phase eng cancelTimeout quitTimeout))) =
           (if 0 < errorStatuses pre
            then ProcessUpdate phase ProcessExecutionFailure
                   (Some (componentFailure (errorStatuses pre)))
            else if CancelTimeoutChan \<in> set pre
            then ProcessUpdate phase ProcessTimeoutFailure (Some timeoutFailure)
            else ProcessUpdate phase ProcessFinished None)"
  using assms
  by (auto simp: uninstallComponents_def UninstallLoop_append sint_errCount componentFailure_def
      timeoutFailure_def Let_def split: prod.splits)

theorem stream_closed_outcome_witness:
  "fst (uninstallComponents UninstallComponents
     \<lparr>UninstallErr = None,
      selects = [StatusRecv \<lparr>Name = ''istio'', Status = ''Uninstalled''\<rparr>,
                 StatusRecv \<lparr>Name = ''dex'', Status = ''Error''\<rparr>,
                 CancelTimeoutChan,
                 StatusRecv \<lparr>Name = ''ory'', Status = ''Uninstalled''\<rparr>,
                 StatusClosed]\<rparr> 10 20) =
     Returned (Some (ErrorNew ''Kyma uninstallation failed due to errors in 1 component(s)''))
   \<and> last (filter isNotification (snd (uninstallComponents UninstallComponents
     \<lparr>UninstallErr = None,
      selects = [StatusRecv \<lparr>Name = ''istio'', Status = ''Uninstalled''\<rparr>,
                 StatusRecv \<lparr>Name = ''dex'', Status = ''Error''\<rparr>,
                 CancelTimeoutChan,
                 StatusRecv \<lparr>Name = ''ory'', Status = ''Uninstalled''\<rparr>,
                 StatusClosed]\<rparr> 10 20))) =
     ProcessUpdate UninstallComponents ProcessExecutionFailure
       (Some (ErrorNew ''Kyma uninstallation failed due to errors in 1 component(s)''))"
  using stream_closed_outcome [of
      "\<lparr>UninstallErr = None,
        selects = [StatusRecv \<lparr>Name = ''istio'', Status = ''Uninstalled''\<rparr>,
                   StatusRecv \<lparr>Name = ''dex'', Status = ''Error''\<rparr>,
                   CancelTimeoutChan,
                   StatusRecv \<lparr>Name = ''ory'', Status = ''Uninstalled''\<rparr>,
                   StatusClosed]\<rparr>"
      "[StatusRecv \<lparr>Name = ''istio'', Status = ''Uninstalled''\<rparr>,
        StatusRecv \<lparr>Name = ''dex'', Status = ''Error''\<rparr>,
        CancelTimeoutChan,
        StatusRecv \<lparr>Name = ''ory'', Status = ''Uninstalled''\<rparr>]"
      "[]" UninstallComponents 10 20]
  by (simp add: errorStatuses_def StatusError_def componentFailure_def fmt_d_def digits.simps)

text \<open>
  The claim as stated fails: that the soft-cancel timer has fired does not make the outcome
  a timeout failure. Here the cancel budget is zero, so the timer has expired before the
  first \<^verbatim>\<open>select\<close>; while the loop is busy with the component it received, the stream
  closes, and the next \<^verbatim>\<open>select\<close>, which picks among its ready cases at random, takes the
  closed stream. The run ends with \<open>ProcessFinished\<close> and returns nil.
\<close>

theorem expired_timer_counterexample:
  "uninstallComponents UninstallPreRequisites
     \<lparr>UninstallErr = None,
      selects = [StatusRecv \<lparr>Name = ''istio'', Status = ''Uninstalled''\<rparr>, StatusClosed]\<rparr> 0 20 =
     (Returned None,
      [TimeAfter 0, TimeAfter 20, EngUninstall,
       ProcessUpdate UninstallPreRequisites ProcessStart None,
       ProcessUpdateComponent UninstallPreRequisites \<lparr>Name = ''istio'', Status = ''Uninstalled''\<rparr>,
       ProcessUpdate UninstallPreRequisites ProcessFinished None])"
  by (simp add: uninstallComponents_def StatusError_def)

subsection \<open>The quit timer\<close>



subsection \<open>Notifications\<close>

text \<open>
  Claim C6, as the code has it. When \<^verbatim>\<open>eng.Uninstall\<close> returns an error, the supervisor
  returns that error right after the call and notifies nothing. When the call succeeds and
  the supervisor returns, its notifications are one \<open>ProcessStart\<close>, then the received
  components, then one terminal notification (\<open>ProcessFinished\<close>,
  \<open>ProcessExecutionFailure\<close>, \<open>ProcessTimeoutFailure\<close> or \<open>ProcessForceQuitFailure\<close>) that
  carries the returned error; the terminal notification is \<open>ProcessFinished\<close> exactly when
  nil is returned.
\<close>

theorem notifications_of_run:
  "(UninstallErr eng = Some e \<longrightarrow>
      uninstallComponents phase eng cancelTimeout quitTimeout =
        (Returned (Some e), [TimeAfter cancelTimeout, TimeAfter quitTimeout, EngUninstall]))
   \<and> (UninstallErr eng = None
        \<and> fst (uninstallComponents phase eng cancelTimeout quitTimeout) = Returned r \<longrightarrow>
      (\<exists>comps ev.
         filter isNotification (snd (uninstallComponents phase eng cancelTimeout quitTimeout)) =
           ProcessUpdate phase ProcessStart None # map (ProcessUpdateComponent phase) comps
             @ [ProcessUpdate phase ev r]
         \<and> ev \<in> {ProcessFinished, ProcessExecutionFailure, ProcessTimeoutFailure,
                  ProcessForceQuitFailure}
         \<and> (ev = ProcessFinished \<longleftrightarrow> r = None)))"
proof (intro conjI impI)
  assume "UninstallErr eng = Some e"
  then show "uninstallComponents phase eng cancelTimeout quitTimeout =
        (Returned (Some e), [TimeAfter cancelTimeout, TimeAfter quitTimeout, EngUninstall])"
    by (simp add: uninstallComponents_def)
next
  assume a: "UninstallErr eng = None
        \<and> fst (uninstallComponents phase eng cancelTimeout quitTimeout) = Returned r"
  then have a1: "UninstallErr eng = None"
    and a2: "fst (uninstallComponents phase eng cancelTimeout quitTimeout) = Returned r"
    by simp_all
  from a2 have "fst (UninstallLoop phase cancelTimeout (selects eng) [] 0 False) = Returned r"
    by (simp add: uninstallComponents_def split_def Let_def a1)
  from UninstallLoop_returned [OF this] a1
  show "\<exists>comps ev.
         filter isNotification (snd (uninstallComponents phase eng cancelTimeout quitTimeout)) =
           ProcessUpdate phase ProcessStart None # map (ProcessUpdateComponent phase) comps
             @ [ProcessUpdate phase ev r]
         \<and> ev \<in> {ProcessFinished, ProcessExecutionFailure, ProcessTimeoutFailure,
                  ProcessForceQuitFailure}
         \<and> (ev = ProcessFinished \<longleftrightarrow> r = None)"
    by (simp add: uninstallComponents_def split_def Let_def)
qed

theorem notifications_of_run_witness:
  "uninstallComponents UninstallComponents
     \<lparr>UninstallErr = Some (ErrorNew ''no helm client''), selects = [StatusClosed]\<rparr> 10 20 =
     (Returned (Some (ErrorNew ''no helm client'')), [TimeAfter 10, TimeAfter 20, EngUninstall])
   \<and> (\<exists>comps ev.
         filter isNotification (snd (uninstallComponents UninstallComponents
            \<lparr>UninstallErr = None,
             selects = [StatusRecv \<lparr>Name = ''dex'', Status = ''Uninstalled''\<rparr>, StatusClosed]\<rparr>
            10 20)) =
           ProcessUpdate UninstallComponents ProcessStart None
             # map (ProcessUpdateComponent UninstallComponents) comps
             @ [ProcessUpdate UninstallComponents ev None]
         \<and> ev \<in> {ProcessFinished, ProcessExecutionFailure, ProcessTimeoutFailure,
                  ProcessForceQuitFailure}
         \<and> (ev = ProcessFinished \<longleftrightarrow> (None :: error option) = None))"
  using notifications_of_run [of
      "\<lparr>UninstallErr = Some (ErrorNew ''no helm client''), selects = [StatusClosed]\<rparr>"
      "ErrorNew ''no helm client''" UninstallComponents 10 20 None]
    notifications_of_run [of
      "\<lparr>UninstallErr = None,
        selects = [StatusRecv \<lparr>Name = ''dex'', Status = ''Uninstalled''\<rparr>, StatusClosed]\<rparr>"
      "ErrorNew ''no helm client''" UninstallComponents 10 20 None]
  by (simp add: uninstallComponents_def StatusError_def)

text \<open>
  The claim as stated fails when the engine's call fails: the error is returned and neither
  a start nor a terminal notification is emitted.
\<close>

theorem uninstall_error_counterexample:
  "uninstallComponents UninstallComponents
     \<lparr>UninstallErr = Some (ErrorNew ''no helm client''), selects = []\<rparr> 10 20 =
     (Returned (Some (ErrorNew ''no helm client'')), [TimeAfter 10, TimeAfter 20, EngUninstall])
   \<and> filter isNotification (snd (uninstallComponents UninstallComponents
     \<lparr>UninstallErr = Some (ErrorNew ''no helm client''), selects = []\<rparr> 10 20)) = []"
  by (simp add: uninstallComponents_def)

section \<open>The namespace teardown: properties\<close>

subsection \<open>The effects of the steps of a goroutine\<close>

lemma calls_append [simp]: "calls (p @ q) = calls p @ calls q"
  by (induction p rule: calls.induct) auto

lemma sends_append [simp]: "sends (p @ q) = sends p @ sends q"
  by (induction p rule: sends.induct) auto

lemma calls_clearItems [simp]:
  "calls (clearItems update answer kind k xs) = map (\<lambda>x. update (x\<lparr>Finalizers := []\<rparr>)) xs"
  by (induction xs arbitrary: k) (auto split: option.splits)

lemma NilDereference_clearItems [simp]:
  "NilDereference \<notin> set (clearItems update answer kind k xs)"
  by (induction xs arbitrary: k) (auto split: option.splits)

lemma NilDereference_clearList [simp]:
  "NilDereference \<in> set (clearList list answer update updateAnswer kind) \<longleftrightarrow> fst answer = None"
  by (auto simp: clearList_def split: option.splits)

lemma NilDereference_clearSecret [simp]: "NilDereference \<notin> set (clearSecret r ns)"
  by (auto simp: clearSecret_def split: option.splits)

lemma NilDereference_removeNamespace [simp]: "NilDereference \<notin> set (removeNamespace r ns)"
  by (auto simp: removeNamespace_def split: option.splits)

lemma calls_clearList [simp]:
  "calls (clearList list answer update updateAnswer kind) =
     list # map (\<lambda>x. update (x\<lparr>Finalizers := []\<rparr>)) (listed answer)"
  by (auto simp: clearList_def listed_def split: option.splits)

lemma calls_clearSecret [simp]:
  "calls (clearSecret r ns) =
     SecretsGet ns ''serverless-registry-config-default''
       # (case fst (secretGet r) of
            None \<Rightarrow> []
          | Some secret \<Rightarrow> [SecretsUpdate ns (secret\<lparr>Finalizers := []\<rparr>)])"
  by (auto simp: clearSecret_def split: option.splits)

lemma calls_removeNamespace [simp]: "calls (removeNamespace r ns) = [NamespacesDelete ns]"
  by (auto simp: removeNamespace_def split: option.splits)

lemma sends_clearList:
  "sends (clearList list answer update updateAnswer kind) =
     (case snd answer of Some err \<Rightarrow> [err] | None \<Rightarrow> [])
     @ sends (clearItems update updateAnswer kind 0 (listed answer))"
  by (auto simp: clearList_def listed_def split: option.splits)

subsection \<open>What the goroutine of a namespace calls\<close>

text \<open>
  Claim C10. The goroutine of a namespace other than \<^verbatim>\<open>kyma-system\<close> makes one cluster call,
  the deletion of that namespace. The goroutine of \<^verbatim>\<open>kyma-system\<close> makes the calls of the
  clearing sequence in their fixed order and the deletion last; where a listing is nil it
  stops at a prefix of that sequence, before the deletion. When no listing is nil its calls
  are the whole sequence followed by the deletion.
\<close>

theorem worker_calls:
  "(ns \<noteq> ''kyma-system'' \<longrightarrow> calls (worker r ns) = [NamespacesDelete ns])
   \<and> prefix (calls (worker r ''kyma-system''))
        (clearingCalls r ''kyma-system'' @ [NamespacesDelete ''kyma-system''])
   \<and> (fst (csbList r) \<noteq> None \<and> fst (sbList r) \<noteq> None \<and> fst (rulesList r) \<noteq> None \<longrightarrow>
        calls (worker r ''kyma-system'') =
          clearingCalls r ''kyma-system'' @ [NamespacesDelete ''kyma-system''])"
  by (auto simp: worker_def andThen_def clearingCalls_def)

theorem worker_calls_witness:
  "calls (worker (quiet\<lparr>csbList := (Some [\<lparr>ObjName = ''helm-broker'', Finalizers = [''kubernetes'']\<rparr>], None),
                        secretGet := (Some \<lparr>ObjName = ''serverless-registry-config-default'',
                                            Finalizers = [''serverless'']\<rparr>, None)\<rparr>) ''istio-system'')
     = [NamespacesDelete ''istio-system'']
   \<and> calls (worker (quiet\<lparr>csbList := (Some [\<lparr>ObjName = ''helm-broker'', Finalizers = [''kubernetes'']\<rparr>], None),
                        secretGet := (Some \<lparr>ObjName = ''serverless-registry-config-default'',
                                            Finalizers = [''serverless'']\<rparr>, None)\<rparr>) ''kyma-system'')
     = [ClusterServiceBrokersList,
        ClusterServiceBrokersUpdate \<lparr>ObjName = ''helm-broker'', Finalizers = []\<rparr>,
        ServiceBrokersList ''kyma-system'',
        SecretsGet ''kyma-system'' ''serverless-registry-config-default'',
        SecretsUpdate ''kyma-system'' \<lparr>ObjName = ''serverless-registry-config-default'', Finalizers = []\<rparr>,
        RulesList ''kyma-system'',
        NamespacesDelete ''kyma-system'']"
  using worker_calls [of "''istio-system''"
      "quiet\<lparr>csbList := (Some [\<lparr>ObjName = ''helm-broker'', Finalizers = [''kubernetes'']\<rparr>], None),
             secretGet := (Some \<lparr>ObjName = ''serverless-registry-config-default'',
                                 Finalizers = [''serverless'']\<rparr>, None)\<rparr>"]
  by (simp add: quiet_def clearingCalls_def listed_def)

subsection \<open>Resources that are absent\<close>

text \<open>
  Claim C8, as the code has it. A NotFound error of the namespace deletion is not sent to
  \<^verbatim>\<open>errorCh\<close>, so the goroutine of a namespace other than \<^verbatim>\<open>kyma-system\<close> sends nothing
  then. A NotFound error of the fetch of the secret is not sent either: the step sends only
  the error of its update, and when the fetch gave no secret it makes no further call. The
  three steps that list their resources (cluster service brokers, service brokers, rules)
  have no such test: they send every error of the List call first, a NotFound error
  included, as the goroutine of \<^verbatim>\<open>kyma-system\<close> does with the error of its first listing.
\<close>

theorem absent_resources:
  "(namespaceDelete r = Some e \<and> IsNotFound e \<longrightarrow>
      sends (removeNamespace r ns) = []
      \<and> (ns \<noteq> ''kyma-system'' \<longrightarrow> sends (worker r ns) = []))
   \<and> (snd (secretGet r) = Some e \<and> IsNotFound e \<longrightarrow>
        sends (clearSecret r ns) =
          (case fst (secretGet r) of
             None \<Rightarrow> []
           | Some secret \<Rightarrow> (case secretUpdate r of None \<Rightarrow> [] | Some err \<Rightarrow> [err]))
        \<and> (fst (secretGet r) = None \<longrightarrow>
             calls (clearSecret r ns) = [SecretsGet ns ''serverless-registry-config-default'']))
   \<and> (snd answer = Some e \<longrightarrow>
        sends (clearList list answer update updateAnswer kind) =
          e # sends (clearItems update updateAnswer kind 0 (listed answer)))
   \<and> (snd (csbList r) = Some e \<longrightarrow> (\<exists>more. sends (worker r ''kyma-system'') = e # more))"
  by (auto simp: removeNamespace_def clearSecret_def sends_clearList worker_def andThen_def
      split: option.splits)

theorem absent_resources_witness:
  "sends (removeNamespace (quiet\<lparr>namespaceDelete := Some notFound, secretGet := (None, Some notFound),
            csbList := (Some [], Some notFound)\<rparr>) ''istio-system'') = []
   \<and> sends (worker (quiet\<lparr>namespaceDelete := Some notFound, secretGet := (None, Some notFound),
            csbList := (Some [], Some notFound)\<rparr>) ''istio-system'') = []
   \<and> sends (clearSecret (quiet\<lparr>namespaceDelete := Some notFound, secretGet := (None, Some notFound),
            csbList := (Some [], Some notFound)\<rparr>) ''kyma-system'') = []
   \<and> calls (clearSecret (quiet\<lparr>namespaceDelete := Some notFound, secretGet := (None, Some notFound),
            csbList := (Some [], Some notFound)\<rparr>) ''kyma-system'') =
       [SecretsGet ''kyma-system'' ''serverless-registry-config-default'']
   \<and> sends (clearList ClusterServiceBrokersList (Some [], Some notFound)
              ClusterServiceBrokersUpdate (\<lambda>k. None) ''CSB'') = [notFound]
   \<and> sends (worker (quiet\<lparr>namespaceDelete := Some notFound, secretGet := (None, Some notFound),
            csbList := (Some [], Some notFound)\<rparr>) ''kyma-system'') = [notFound]"
  using absent_resources [of
      "quiet\<lparr>namespaceDelete := Some notFound, secretGet := (None, Some notFound),
             csbList := (Some [], Some notFound)\<rparr>"
      notFound "''istio-system''" "(Some [], Some notFound)" ClusterServiceBrokersList
      ClusterServiceBrokersUpdate "\<lambda>k. None" "''CSB''"]
    absent_resources [of
      "quiet\<lparr>namespaceDelete := Some notFound, secretGet := (None, Some notFound),
             csbList := (Some [], Some notFound)\<rparr>"
      notFound "''kyma-system''" "(Some [], Some notFound)" ClusterServiceBrokersList
      ClusterServiceBrokersUpdate "\<lambda>k. None" "''CSB''"]
  by (simp add: quiet_def notFound_def listed_def worker_def andThen_def clearList_def
      clearSecret_def removeNamespace_def)

text \<open>
  The claim as stated fails for the kinds that are listed. The cluster answers the listing of
  the cluster service brokers with a NotFound error and every other call without an error;
  the pods of \<^verbatim>\<open>kyma-system\<close> are gone. The goroutine sends the NotFound error, and
  \<^verbatim>\<open>deleteKymaNamespaces\<close> returns it.
\<close>

theorem listing_not_found_counterexample:
  "fst (deleteKymaNamespaces
         \<lparr>cfg = \<lparr>CancelTimeout = 10, QuitTimeout = 20\<rparr>, mpNamespaces = Inr [],
          cluster = (\<lambda>n. quiet\<lparr>csbList := (Some [], Some notFound)\<rparr>), retryAttempts = 3\<rparr>
         [''kyma-system'']
         [Run 0, Receive 0, Run 0, Run 0, Run 0, Run 0, Run 0, Run 0, Closer, Closer, Finished]) =
     Returned (Some (APIStatus True ''the server could not find the requested resource''))"
  by (simp add: deleteKymaNamespaces_def checkPods_def quiet_def notFound_def worker_def
      andThen_def clearList_def clearSecret_def removeNamespace_def numeral_3_eq_3)

subsection \<open>A pre-check whose listing fails\<close>






section \<open>The orchestrator: properties\<close>

lemma UninstallLoop_effects:
  "e \<in> set (snd (UninstallLoop phase cancelTimeout sel statusMap errCount timeoutOccured)) \<Longrightarrow>
   \<not> isTeardown e \<and> e \<noteq> EngUninstall \<and> (\<forall>p. p \<noteq> phase \<longrightarrow> \<not> ofPhase p e)"
  by (induction phase cancelTimeout sel statusMap errCount timeoutOccured rule: UninstallLoop.induct)
    (auto simp: split_def Let_def split: if_splits)

lemma uninstallComponents_effects:
  "e \<in> set (snd (uninstallComponents phase eng cancelTimeout quitTimeout)) \<Longrightarrow>
   \<not> isTeardown e \<and> (\<forall>p. p \<noteq> phase \<longrightarrow> \<not> ofPhase p e)"
  using UninstallLoop_effects [of e phase cancelTimeout "selects eng" "[]" 0 False]
  by (auto simp: uninstallComponents_def split_def Let_def split: option.splits)

lemma uninstallComponents_engineCalls:
  "engineCalls (snd (uninstallComponents phase eng cancelTimeout quitTimeout)) = 1"
proof -
  have "filter (\<lambda>e. e = EngUninstall)
          (snd (UninstallLoop phase cancelTimeout (selects eng) [] 0 False)) = []"
    using UninstallLoop_effects [of _ phase cancelTimeout "selects eng" "[]" 0 False]
    by (auto simp: filter_empty_conv)
  then show ?thesis
    by (auto simp: uninstallComponents_def engineCalls_def split_def Let_def split: option.splits)
qed

lemma uninstallComponents_budgets:
  "\<exists>rest. snd (uninstallComponents phase eng cancelTimeout quitTimeout) =
     TimeAfter cancelTimeout # TimeAfter quitTimeout # rest"
  by (auto simp: uninstallComponents_def split_def Let_def split: option.splits)

subsection \<open>The budgets of the second phase\<close>

text \<open>
  Claim C2. When the first phase returned without an error, the second phase is run with the
  budgets \<open>max 0 (budget - elapsed)\<close> of the two configured timeouts, the elapsed time being
  the difference of the two clock readings around the first phase: these are the durations
  its two timers are started with, right after the log line of the second phase. Neither is
  negative, whatever the clock readings are.
\<close>

theorem second_phase_budgets:
  assumes "mpNamespaces i = Inr namespaces"
    and "uninstallComponents UninstallComponents componentsEng
           (CancelTimeout (cfg i)) (QuitTimeout (cfg i)) = (Returned None, effs1)"
  shows "(\<exists>rest. snd (startKymaUninstallation i prerequisitesEng componentsEng startTime endTime sched) =
           [Log ''Kyma uninstallation started'', MpNamespaces] @ effs1
           @ [Log ''Kyma prerequisites uninstallation'',
              TimeAfter (max 0 (CancelTimeout (cfg i) - (endTime - startTime))),
              TimeAfter (max 0 (QuitTimeout (cfg i) - (endTime - startTime)))] @ rest)
       \<and> calculateDuration startTime endTime (CancelTimeout (cfg i)) =
           max 0 (CancelTimeout (cfg i) - (endTime - startTime))
       \<and> calculateDuration startTime endTime (QuitTimeout (cfg i)) =
           max 0 (QuitTimeout (cfg i) - (endTime - startTime))
       \<and> 0 \<le> calculateDuration startTime endTime (CancelTimeout (cfg i))
       \<and> 0 \<le> calculateDuration startTime endTime (QuitTimeout (cfg i))"
proof -
  let ?c = "calculateDuration startTime endTime (CancelTimeout (cfg i))"
  let ?q = "calculateDuration startTime endTime (QuitTimeout (cfg i))"
  obtain r effs2 where second:
    "uninstallComponents UninstallPreRequisites prerequisitesEng ?c ?q = (r, effs2)"
    by (cases "uninstallComponents UninstallPreRequisites prerequisitesEng ?c ?q")
  from uninstallComponents_budgets [of UninstallPreRequisites prerequisitesEng ?c ?q] second
  obtain rest where effs2: "effs2 = TimeAfter ?c # TimeAfter ?q # rest"
    by auto
  have "\<exists>rest. snd (startKymaUninstallation i prerequisitesEng componentsEng startTime endTime sched) =
           [Log ''Kyma uninstallation started'', MpNamespaces] @ effs1
           @ [Log ''Kyma prerequisites uninstallation'', TimeAfter ?c, TimeAfter ?q] @ rest"
    using assms second effs2
    by (auto simp: startKymaUninstallation_def split_def Let_def split: go.splits option.splits)
  then show ?thesis
    by (simp add: calculateDuration_def)
qed

theorem second_phase_budgets_witness:
  "(\<exists>rest. snd (startKymaUninstallation
        \<lparr>cfg = \<lparr>CancelTimeout = 600, QuitTimeout = 900\<rparr>, mpNamespaces = Inr [''kyma-system''],
         cluster = (\<lambda>n. quiet), retryAttempts = 3\<rparr>
        \<lparr>UninstallErr = None, selects = [StatusClosed]\<rparr>
        \<lparr>UninstallErr = None, selects = [StatusClosed]\<rparr> 1000 1720 []) =
      [Log ''Kyma uninstallation started'', MpNamespaces, TimeAfter 600, TimeAfter 900, EngUninstall,
       ProcessUpdate UninstallComponents ProcessStart None,
       ProcessUpdate UninstallComponents ProcessFinished None,
       Log ''Kyma prerequisites uninstallation'', TimeAfter 0, TimeAfter 180] @ rest)
   \<and> calculateDuration 1000 1720 600 = 0 \<and> calculateDuration 1000 1720 900 = 180"
  using second_phase_budgets [of
      "\<lparr>cfg = \<lparr>CancelTimeout = 600, QuitTimeout = 900\<rparr>, mpNamespaces = Inr [''kyma-system''],
        cluster = (\<lambda>n. quiet), retryAttempts = 3\<rparr>"
      "[''kyma-system'']" "\<lparr>UninstallErr = None, selects = [StatusClosed]\<rparr>"
      "[TimeAfter 600, TimeAfter 900, EngUninstall,
        ProcessUpdate UninstallComponents ProcessStart None,
        ProcessUpdate UninstallComponents ProcessFinished None]"
      "\<lparr>UninstallErr = None, selects = [StatusClosed]\<rparr>" 1000 1720 "[]"]
  by (simp add: uninstallComponents_def)

subsection \<open>A phase that fails\<close>

text \<open>
  Claim C3. When the supervisor of the components phase returns an error, the orchestrator
  returns that error; its effects are the two of its start, those of that one supervisor
  run and the deferred cancellation. So the engine of the prerequisites is not started (one
  call of \<^verbatim>\<open>Uninstall\<close> in all, no notification of the second phase) and the teardown makes
  no step, whatever the second engine, the cluster and the scheduler would do. When the
  components phase returns without an error and the supervisor of the prerequisites phase
  returns an error, that error is returned after the effects of the two runs, and the
  teardown makes no step either.
\<close>

theorem failed_phase_aborts:
  assumes "mpNamespaces i = Inr namespaces"
  shows "(uninstallComponents UninstallComponents componentsEng
            (CancelTimeout (cfg i)) (QuitTimeout (cfg i)) = (Returned (Some err), effs1) \<longrightarrow>
          startKymaUninstallation i prerequisitesEng componentsEng startTime endTime sched =
            (Returned (Some err),
             [Log ''Kyma uninstallation started'', MpNamespaces] @ effs1 @ [CancelFunc])
          \<and> engineCalls (snd (startKymaUninstallation i prerequisitesEng componentsEng
                                startTime endTime sched)) = 1
          \<and> (\<forall>e \<in> set (snd (startKymaUninstallation i prerequisitesEng componentsEng
                                startTime endTime sched)).
                \<not> ofPhase UninstallPreRequisites e \<and> \<not> isTeardown e))
       \<and> (uninstallComponents UninstallComponents componentsEng
            (CancelTimeout (cfg i)) (QuitTimeout (cfg i)) = (Returned None, effs1)
          \<and> uninstallComponents UninstallPreRequisites prerequisitesEng
              (calculateDuration startTime endTime (CancelTimeout (cfg i)))
              (calculateDuration startTime endTime (QuitTimeout (cfg i))) =
              (Returned (Some err), effs2) \<longrightarrow>
          startKymaUninstallation i prerequisitesEng componentsEng startTime endTime sched =
            (Returned (Some err),
             [Log ''Kyma uninstallation started'', MpNamespaces] @ effs1
             @ [Log ''Kyma prerequisites uninstallation''] @ effs2 @ [CancelFunc])
          \<and> engineCalls (snd (startKymaUninstallation i prerequisitesEng componentsEng
                                startTime endTime sched)) = 2
          \<and> (\<forall>e \<in> set (snd (startKymaUninstallation i prerequisitesEng componentsEng
                                startTime endTime sched)). \<not> isTeardown e))"
proof (intro conjI impI)
  let ?run = "startKymaUninstallation i prerequisitesEng componentsEng startTime endTime sched"
  assume first: "uninstallComponents UninstallComponents componentsEng
            (CancelTimeout (cfg i)) (QuitTimeout (cfg i)) = (Returned (Some err), effs1)"
  with assms show run: "?run = (Returned (Some err),
             [Log ''Kyma uninstallation started'', MpNamespaces] @ effs1 @ [CancelFunc])"
    by (simp add: startKymaUninstallation_def)
  from uninstallComponents_engineCalls [of UninstallComponents componentsEng
      "CancelTimeout (cfg i)" "QuitTimeout (cfg i)"] first
  have "engineCalls effs1 = 1" by simp
  then show "engineCalls (snd ?run) = 1"
    by (simp add: run engineCalls_def)
  from uninstallComponents_effects [of _ UninstallComponents componentsEng
      "CancelTimeout (cfg i)" "QuitTimeout (cfg i)"] first
  have "\<forall>e \<in> set effs1. \<not> ofPhase UninstallPreRequisites e \<and> \<not> isTeardown e"
    by auto
  then show "\<forall>e \<in> set (snd ?run). \<not> ofPhase UninstallPreRequisites e \<and> \<not> isTeardown e"
    by (auto simp: run)
next
  let ?run = "startKymaUninstallation i prerequisitesEng componentsEng startTime endTime sched"
  let ?c = "calculateDuration startTime endTime (CancelTimeout (cfg i))"
  let ?q = "calculateDuration startTime endTime (QuitTimeout (cfg i))"
  assume both: "uninstallComponents UninstallComponents componentsEng
            (CancelTimeout (cfg i)) (QuitTimeout (cfg i)) = (Returned None, effs1)
          \<and> uninstallComponents UninstallPreRequisites prerequisitesEng ?c ?q =
              (Returned (Some err), effs2)"
  with assms show run: "?run = (Returned (Some err),
             [Log ''Kyma uninstallation started'', MpNamespaces] @ effs1
             @ [Log ''Kyma prerequisites uninstallation''] @ effs2 @ [CancelFunc])"
    by (simp add: startKymaUninstallation_def)
  from uninstallComponents_engineCalls [of UninstallComponents componentsEng
      "CancelTimeout (cfg i)" "QuitTimeout (cfg i)"] both
  have e1: "engineCalls effs1 = 1" by simp
  from uninstallComponents_engineCalls [of UninstallPreRequisites prerequisitesEng ?c ?q] both
  have e2: "engineCalls effs2 = 1" by simp
  from e1 e2 show "engineCalls (snd ?run) = 2"
    by (simp add: run engineCalls_def)
  from uninstallComponents_effects [of _ UninstallComponents componentsEng
      "CancelTimeout (cfg i)" "QuitTimeout (cfg i)"] both
  have t1: "\<forall>e \<in> set effs1. \<not> isTeardown e" by auto
  from uninstallComponents_effects [of _ UninstallPreRequisites prerequisitesEng ?c ?q] both
  have t2: "\<forall>e \<in> set effs2. \<not> isTeardown e" by auto
  from t1 t2 show "\<forall>e \<in> set (snd ?run). \<not> isTeardown e"
    by (auto simp: run)
qed

theorem failed_phase_aborts_witness:
  "startKymaUninstallation
      \<lparr>cfg = \<lparr>CancelTimeout = 600, QuitTimeout = 900\<rparr>, mpNamespaces = Inr [''kyma-system''],
       cluster = (\<lambda>n. quiet), retryAttempts = 3\<rparr>
      \<lparr>UninstallErr = None, selects = [StatusClosed]\<rparr>
      \<lparr>UninstallErr = None,
       selects = [StatusRecv \<lparr>Name = ''dex'', Status = ''Uninstalled''\<rparr>,
                  StatusRecv \<lparr>Name = ''ory'', Status = ''Error''\<rparr>,
                  StatusRecv \<lparr>Name = ''tracing'', Status = ''Uninstalled''\<rparr>, StatusClosed]\<rparr>
      1000 1720 [Run 0, Closer, Closer, Finished] =
     (Returned (Some (ErrorNew ''Kyma uninstallation failed due to errors in 1 component(s)'')),
      [Log ''Kyma uninstallation started'', MpNamespaces, TimeAfter 600, TimeAfter 900, EngUninstall,
       ProcessUpdate UninstallComponents ProcessStart None,
       ProcessUpdateComponent UninstallComponents \<lparr>Name = ''dex'', Status = ''Uninstalled''\<rparr>,
       ProcessUpdateComponent UninstallComponents \<lparr>Name = ''ory'', Status = ''Error''\<rparr>,
       ProcessUpdateComponent UninstallComponents \<lparr>Name = ''tracing'', Status = ''Uninstalled''\<rparr>,
       ProcessUpdate UninstallComponents ProcessExecutionFailure
         (Some (ErrorNew ''Kyma uninstallation failed due to errors in 1 component(s)'')),
       LogStatuses [(''dex'', ''Uninstalled''), (''ory'', ''Error''), (''tracing'', ''Uninstalled'')],
       CancelFunc])
   \<and> startKymaUninstallation
      \<lparr>cfg = \<lparr>CancelTimeout = 600, QuitTimeout = 900\<rparr>, mpNamespaces = Inr [''kyma-system''],
       cluster = (\<lambda>n. quiet), retryAttempts = 3\<rparr>
      \<lparr>UninstallErr = None, selects = [QuitTimeoutChan]\<rparr>
      \<lparr>UninstallErr = None, selects = [StatusClosed]\<rparr>
      1000 1720 [Run 0, Closer, Closer, Finished] =
     (Returned (Some (ErrorNew ''Force quit: Kyma uninstallation failed due to the timeout'')),
      [Log ''Kyma uninstallation started'', MpNamespaces, TimeAfter 600, TimeAfter 900, EngUninstall,
       ProcessUpdate UninstallComponents ProcessStart None,
       ProcessUpdate UninstallComponents ProcessFinished None,
       Log ''Kyma prerequisites uninstallation'', TimeAfter 0, TimeAfter 180, EngUninstall,
       ProcessUpdate UninstallPreRequisites ProcessStart None,
       ProcessUpdate UninstallPreRequisites ProcessForceQuitFailure
         (Some (ErrorNew ''Force quit: Kyma uninstallation failed due to the timeout'')),
       Log ''Uninstallation doesn't stop after it's canceled. Enforcing quit'',
       CancelFunc])"
  using failed_phase_aborts [of
      "\<lparr>cfg = \<lparr>CancelTimeout = 600, QuitTimeout = 900\<rparr>, mpNamespaces = Inr [''kyma-system''],
        cluster = (\<lambda>n. quiet), retryAttempts = 3\<rparr>"
      "[''kyma-system'']"
      "\<lparr>UninstallErr = None,
        selects = [StatusRecv \<lparr>Name = ''dex'', Status = ''Uninstalled''\<rparr>,
                   StatusRecv \<lparr>Name = ''ory'', Status = ''Error''\<rparr>,
                   StatusRecv \<lparr>Name = ''tracing'', Status = ''Uninstalled''\<rparr>, StatusClosed]\<rparr>"
      "ErrorNew ''Kyma uninstallation failed due to errors in 1 component(s)''"
      "[TimeAfter 600, TimeAfter 900, EngUninstall,
        ProcessUpdate UninstallComponents ProcessStart None,
        ProcessUpdateComponent UninstallComponents \<lparr>Name = ''dex'', Status = ''Uninstalled''\<rparr>,
        ProcessUpdateComponent UninstallComponents \<lparr>Name = ''ory'', Status = ''Error''\<rparr>,
        ProcessUpdateComponent UninstallComponents \<lparr>Name = ''tracing'', Status = ''Uninstalled''\<rparr>,
        ProcessUpdate UninstallComponents ProcessExecutionFailure
          (Some (ErrorNew ''Kyma uninstallation failed due to errors in 1 component(s)'')),
        LogStatuses [(''dex'', ''Uninstalled''), (''ory'', ''Error''), (''tracing'', ''Uninstalled'')]]"
      "\<lparr>UninstallErr = None, selects = [StatusClosed]\<rparr>" 1000 1720
      "[Run 0, Closer, Closer, Finished]"]
    failed_phase_aborts [of
      "\<lparr>cfg = \<lparr>CancelTimeout = 600, QuitTimeout = 900\<rparr>, mpNamespaces = Inr [''kyma-system''],
        cluster = (\<lambda>n. quiet), retryAttempts = 3\<rparr>"
      "[''kyma-system'']"
      "\<lparr>UninstallErr = None, selects = [StatusClosed]\<rparr>"
      "ErrorNew ''Force quit: Kyma uninstallation failed due to the timeout''"
      "[TimeAfter 600, TimeAfter 900, EngUninstall,
        ProcessUpdate UninstallComponents ProcessStart None,
        ProcessUpdate UninstallComponents ProcessFinished None]"
      "\<lparr>UninstallErr = None, selects = [QuitTimeoutChan]\<rparr>" 1000 1720
      "[Run 0, Closer, Closer, Finished]"
      "[TimeAfter 0, TimeAfter 180, EngUninstall,
        ProcessUpdate UninstallPreRequisites ProcessStart None,
        ProcessUpdate UninstallPreRequisites ProcessForceQuitFailure
          (Some (ErrorNew ''Force quit: Kyma uninstallation failed due to the timeout'')),
        Log ''Uninstallation doesn't stop after it's canceled. Enforcing quit'']"]
  by (simp add: uninstallComponents_def StatusError_def calculateDuration_def fmt_d_def digits.simps
      Let_def)

end
